theory Spec2Isabelle
  imports Main
begin

section \<open>Data model\<close>

text \<open>
  The errors a stage of the summarization service can raise. \<open>KeyError\<close> and
  \<open>ValueError\<close> are the Python exceptions of a missing mapping key and of a malformed
  format string; the others are the error classes of the specification
  (validation at the HTTP layer, the three provider failures, extraction).
\<close>

datatype error =
    KeyError string
  | ValueError string
  | ValidationError string
  | TransportError
  | AuthError
  | ProviderError string
  | ExtractionError

text \<open>JSON values, as request and response bodies carry them.\<close>

datatype json =
    JNull
  | JBool bool
  | JNum int
  | JStr string
  | JArr "json list"
  | JObj "(string \<times> json) list"

section \<open>Prompt for summarization (src/app.py, lines 49 to 51)\<close>

text \<open>
  The template is a Python format string. A format string is read left to right:
  \<open>{{\<close> and \<open>}}\<close> stand for one literal brace, \<open>{name}\<close> is a replacement field, any
  other character is literal text, a \<open>}\<close> on its own and a \<open>{\<close> that is never closed
  are errors. Format specifications, conversions and attribute or index lookups inside a
  field are not modelled; the template of the source uses none of them.
\<close>

datatype piece = Text char | Field string

fun put :: "piece \<Rightarrow> error + piece list \<Rightarrow> error + piece list" where
  "put p (Inl e) = Inl e"
| "put p (Inr ps) = Inr (p # ps)"

fun scan :: "string \<Rightarrow> error + piece list"
  and scan_field :: "string \<Rightarrow> string \<Rightarrow> error + piece list" where
  "scan [] = Inr []"
| "scan (c # cs) =
     (if c = CHR ''{'' then
        (case cs of
           [] \<Rightarrow> Inl (ValueError ''Single '{' encountered in format string'')
         | d # ds \<Rightarrow> if d = CHR ''{'' then put (Text c) (scan ds) else scan_field [] cs)
      else if c = CHR ''}'' then
        (case cs of
           [] \<Rightarrow> Inl (ValueError ''Single '}' encountered in format string'')
         | d # ds \<Rightarrow> if d = CHR ''}'' then put (Text c) (scan ds)
                     else Inl (ValueError ''Single '}' encountered in format string''))
      else put (Text c) (scan cs))"
| "scan_field name [] = Inl (ValueError ''expected '}' before end of string'')"
| "scan_field name (c # cs) =
     (if c = CHR ''}'' then put (Field (rev name)) (scan cs)
      else scan_field (c # name) cs)"

text \<open>
  Formatting looks every field up in the mapping of the call; a field whose name the
  mapping lacks raises \<open>KeyError\<close>. Keys of the mapping that no field names are ignored.
\<close>

fun format_pieces :: "piece list \<Rightarrow> (string \<rightharpoonup> string) \<Rightarrow> error + string" where
  "format_pieces [] kwargs = Inr []"
| "format_pieces (Text c # ps) kwargs =
     (case format_pieces ps kwargs of Inl e \<Rightarrow> Inl e | Inr out \<Rightarrow> Inr (c # out))"
| "format_pieces (Field name # ps) kwargs =
     (case kwargs name of
        None \<Rightarrow> Inl (KeyError name)
      | Some v \<Rightarrow>
          (case format_pieces ps kwargs of Inl e \<Rightarrow> Inl e | Inr out \<Rightarrow> Inr (v @ out)))"

definition from_template :: "string \<Rightarrow> (string \<rightharpoonup> string) \<Rightarrow> error + string" where
  "from_template template kwargs =
     (case scan template of Inl e \<Rightarrow> Inl e | Inr ps \<Rightarrow> format_pieces ps kwargs)"

definition prompt :: "(string \<rightharpoonup> string) \<Rightarrow> error + string" where
  "prompt =
     from_template ''Summarize the following text clearly and concisely:\<newline>\<newline>{text}''"

section \<open>The provider and the output parser\<close>

text \<open>
  Modelled from the spec: the raw model response. The class of the response belongs to
  the model library, which is not part of the repository; the specification describes it
  as the generated text plus provider metadata (token counts, finish reason), with the
  text an optional field whose absence is an extraction error.
\<close>

record response =
  content :: "string option"
  metadata :: "(string \<times> json) list"

text \<open>
  The model client of lines 40 to 44 calls a remote provider. The provider is outside
  the program, so it is a parameter: a function from the prompt and the provider's own
  state to a response or an error, and the provider's next state. The state lets a
  provider answer the same prompt differently from one call to the next.
\<close>

type_synonym 's provider = "string \<Rightarrow> 's \<Rightarrow> (error + response) \<times> 's"

text \<open>
  The configuration of the model client. The temperature of the source is the decimal
  \<open>0.3\<close>; it is kept in tenths.
\<close>

record model_config =
  api_key :: string
  model :: string
  temperature_tenths :: nat

definition ChatGroq :: "string \<Rightarrow> model_config" where
  "ChatGroq groq_api_key =
     \<lparr>api_key = groq_api_key, model = ''llama-3.1-8b-instant'', temperature_tenths = 3\<rparr>"

text \<open>
  Modelled from the spec: the output parser \<open>StrOutputParser\<close>, a class of the
  pipeline library that is not part of the repository. By section 4.3 it returns the
  generated text alone, drops the metadata, and fails when the text field is missing.
\<close>

definition StrOutputParser :: "response \<Rightarrow> error + string" where
  "StrOutputParser r = (case content r of None \<Rightarrow> Inl ExtractionError | Some c \<Rightarrow> Inr c)"

section \<open>Chain (src/app.py, line 56)\<close>

text \<open>
  A runnable takes an input and the provider's state and returns a result or an error,
  with the provider's state after it. \<open>pipe\<close> is the operator \<open>|\<close> of the source: the
  second runnable runs on the output of the first, and an error of the first ends the
  sequence.
\<close>

type_synonym ('a, 'b, 's) runnable = "'a \<Rightarrow> 's \<Rightarrow> (error + 'b) \<times> 's"

definition pure_stage :: "('a \<Rightarrow> error + 'b) \<Rightarrow> ('a, 'b, 's) runnable" where
  "pure_stage f = (\<lambda>x s. (f x, s))"

definition pipe :: "('a, 'b, 's) runnable \<Rightarrow> ('b, 'c, 's) runnable \<Rightarrow> ('a, 'c, 's) runnable" where
  "pipe first second =
     (\<lambda>x s. case first x s of
               (Inl e, s') \<Rightarrow> (Inl e, s')
             | (Inr y, s') \<Rightarrow> second y s')"

definition chain :: "'s provider \<Rightarrow> (string \<rightharpoonup> string, string, 's) runnable" where
  "chain llm = pipe (pipe (pure_stage prompt) llm) (pure_stage StrOutputParser)"

text \<open>
  The pipeline in the words of the specification: the Prompt Builder, then the
  Summarization Client, then the Response Extractor, each on the output of the one
  before it.
\<close>

definition summarize_stages :: "'s provider \<Rightarrow> (string \<rightharpoonup> string, string, 's) runnable" where
  "summarize_stages llm request s =
     (case prompt request of
        Inl e \<Rightarrow> (Inl e, s)
      | Inr rendered \<Rightarrow>
          (case llm rendered s of
             (Inl e, s') \<Rightarrow> (Inl e, s')
           | (Inr raw, s') \<Rightarrow> (StrOutputParser raw, s')))"

section \<open>The route (src/app.py, lines 61 to 65)\<close>

record http_response =
  status :: nat
  body :: json

fun message :: "error \<Rightarrow> string" where
  "message (KeyError k) = ''KeyError: '' @ k"
| "message (ValueError m) = ''ValueError: '' @ m"
| "message (ValidationError m) = ''ValidationError: '' @ m"
| "message TransportError = ''TransportError''"
| "message AuthError = ''AuthError''"
| "message (ProviderError m) = ''ProviderError: '' @ m"
| "message ExtractionError = ''ExtractionError''"

text \<open>
  Modelled from the spec: the validation of the request body. The route is built by the
  serving library's \<open>add_routes\<close>, which is not part of the repository. By section 4.4
  the body is a JSON object whose \<open>text\<close> is a string; a body without \<open>text\<close>, or with
  a \<open>text\<close> of another type, is malformed. Nothing is asked of the string itself. A key
  written twice keeps its last value.
\<close>

fun validate :: "json \<Rightarrow> error + (string \<rightharpoonup> string)" where
  "validate (JObj members) =
     (case map_of (rev members) ''text'' of
        None \<Rightarrow> Inl (ValidationError ''text: field required'')
      | Some (JStr t) \<Rightarrow> Inr [''text'' \<mapsto> t]
      | Some _ \<Rightarrow> Inl (ValidationError ''text: string expected''))"
| "validate _ = Inl (ValidationError ''body: object expected'')"

text \<open>
  Modelled from the spec: the handler of the route, again the work of \<open>add_routes\<close>. By
  section 4.4 a malformed body is answered with status 422 and the validation error,
  before the pipeline runs; a failure of the pipeline is answered with status 500 and
  the error's message; a summary is answered with status 200 and the summary in the
  field \<open>output\<close>. The pipeline the handler runs is \<open>chain\<close>, the second argument of
  \<open>add_routes\<close> in the source.
\<close>

definition summarize_endpoint :: "'s provider \<Rightarrow> json \<Rightarrow> 's \<Rightarrow> http_response \<times> 's" where
  "summarize_endpoint llm request_body s =
     (case validate request_body of
        Inl e \<Rightarrow> (\<lparr>status = 422, body = JObj [(''detail'', JStr (message e))]\<rparr>, s)
      | Inr request \<Rightarrow>
          (case chain llm request s of
             (Inl e, s') \<Rightarrow> (\<lparr>status = 500, body = JObj [(''detail'', JStr (message e))]\<rparr>, s')
           | (Inr summary, s') \<Rightarrow> (\<lparr>status = 200, body = JObj [(''output'', JStr summary)]\<rparr>, s')))"

section \<open>The module (src/app.py, top to bottom)\<close>

record cors =
  allow_origins :: "string list"
  allow_methods :: "string list"
  allow_headers :: "string list"

record fastapi =
  title :: string
  version :: string
  description :: string
  middleware :: "cors list"
  routes :: "string list"

definition FastAPI :: "string \<Rightarrow> string \<Rightarrow> string \<Rightarrow> fastapi" where
  "FastAPI t v d = \<lparr>title = t, version = v, description = d, middleware = [], routes = []\<rparr>"

definition add_middleware :: "fastapi \<Rightarrow> cors \<Rightarrow> fastapi" where
  "add_middleware a c = a\<lparr>middleware := c # middleware a\<rparr>"

definition add_routes :: "fastapi \<Rightarrow> string \<Rightarrow> fastapi" where
  "add_routes a path = a\<lparr>routes := routes a @ [path]\<rparr>"

text \<open>
  What loading the module leaves behind: the application, the configuration of the model
  client, and the address the server listens on, if the module started one.
\<close>

record server =
  application :: fastapi
  client :: model_config
  listener :: "(string \<times> nat) option"

text \<open>
  The statements of the module in their order. \<open>load_dotenv\<close> belongs to a library
  outside the repository and changes the environment, so it is a parameter: a function
  on environments. \<open>os.environ["GROQ_API_KEY"]\<close> raises \<open>KeyError\<close> when the variable is
  not in the environment, and no later statement runs. The last statement starts the
  server on \<open>localhost\<close>, port 8000, when the module is run as the main program; its
  name is then \<open>__main__\<close>.
\<close>

definition app_module ::
  "((string \<rightharpoonup> string) \<Rightarrow> (string \<rightharpoonup> string)) \<Rightarrow> (string \<rightharpoonup> string) \<Rightarrow> string \<Rightarrow> error + server" where
  "app_module load_dotenv environ name =
     (let environ' = load_dotenv environ in
      case environ' ''GROQ_API_KEY'' of
        None \<Rightarrow> Inl (KeyError ''GROQ_API_KEY'')
      | Some groq_api_key \<Rightarrow>
          (let app = FastAPI ''Text Summarizer API'' ''1.0''
                       ''Text summarization using LangServe + Groq'';
               app = add_middleware app
                       \<lparr>allow_origins = [''*''], allow_methods = [''*''], allow_headers = [''*'']\<rparr>;
               llm = ChatGroq groq_api_key;
               app = add_routes app ''/summarize''
           in Inr \<lparr>application = app, client = llm,
                   listener = (if name = ''__main__'' then Some (''localhost'', 8000) else None)\<rparr>))"

text \<open>The address a load of the module listens on; none when the load failed.\<close>

definition listening :: "error + server \<Rightarrow> (string \<times> nat) option" where
  "listening r = (case r of Inl e \<Rightarrow> None | Inr srv \<Rightarrow> listener srv)"

section \<open>Facts about the prompt, the chain and the route\<close>

lemma scan_template:
  "scan ''Summarize the following text clearly and concisely:\<newline>\<newline>{text}'' =
   Inr (map Text ''Summarize the following text clearly and concisely:\<newline>\<newline>'' @
        [Field ''text''])"
  by simp

lemma format_pieces_text:
  "format_pieces (map Text pre @ ps) kwargs =
     (case format_pieces ps kwargs of Inl e \<Rightarrow> Inl e | Inr out \<Rightarrow> Inr (pre @ out))"
  by (induction pre) (auto split: sum.splits)

lemma prompt_lookup:
  "prompt kwargs =
     (case kwargs ''text'' of
        None \<Rightarrow> Inl (KeyError ''text'')
      | Some v \<Rightarrow> Inr (''Summarize the following text clearly and concisely:\<newline>\<newline>'' @ v))"
  unfolding prompt_def from_template_def scan_template
  by (simp only: format_pieces_text sum.case) (simp split: option.splits)

lemma chain_unfold:
  "chain llm request s =
     (case prompt request of
        Inl e \<Rightarrow> (Inl e, s)
      | Inr rendered \<Rightarrow>
          (case llm rendered s of
             (Inl e, s') \<Rightarrow> (Inl e, s')
           | (Inr raw, s') \<Rightarrow> (StrOutputParser raw, s')))"
  by (simp add: chain_def pipe_def pure_stage_def split: sum.splits prod.splits)

lemma chain_result:
  "fst (chain llm request u) =
     (case prompt request of
        Inl e \<Rightarrow> Inl e
      | Inr rendered \<Rightarrow>
          (case fst (llm rendered u) of Inl e \<Rightarrow> Inl e | Inr raw \<Rightarrow> StrOutputParser raw))"
  by (simp add: chain_unfold split: sum.splits prod.splits)

lemma endpoint_response:
  "fst (summarize_endpoint llm request_body u) =
     (case validate request_body of
        Inl e \<Rightarrow> \<lparr>status = 422, body = JObj [(''detail'', JStr (message e))]\<rparr>
      | Inr request \<Rightarrow>
          (case fst (chain llm request u) of
             Inl e \<Rightarrow> \<lparr>status = 500, body = JObj [(''detail'', JStr (message e))]\<rparr>
           | Inr summary \<Rightarrow> \<lparr>status = 200, body = JObj [(''output'', JStr summary)]\<rparr>))"
  by (simp add: summarize_endpoint_def split: sum.splits prod.splits)

lemma validate_no_text:
  assumes "\<forall>members. request_body = JObj members \<longrightarrow> ''text'' \<notin> fst ` set members"
  shows "\<exists>m. validate request_body = Inl (ValidationError m)"
proof (cases request_body)
  case (JObj members)
  with assms have "''text'' \<notin> fst ` set (rev members)" by simp
  then have "map_of (rev members) ''text'' = None" by (simp add: map_of_eq_None_iff)
  with JObj show ?thesis by simp
qed simp_all

section \<open>The claims\<close>

text \<open>
  Claim C1. The pipeline of line 56 is the ordered composition of three stages: the
  Prompt Builder, then the model call, then the Response Extractor, each on the output
  of the stage before it. \<open>chain\<close>, built with the operator of the source, equals the
  three stages written out; on a request whose \<open>text\<close> is \<open>t\<close> it is the model call on
  the template filled with \<open>t\<close>, followed by the extractor. The provider's state is the
  one the model call leaves.
\<close>

theorem chain_is_three_stage_composition:
  "chain llm request s = summarize_stages llm request s \<and>
   chain llm (m(''text'' \<mapsto> t)) s =
     (case llm (''Summarize the following text clearly and concisely:\<newline>\<newline>'' @ t) s of
        (Inl e, s') \<Rightarrow> (Inl e, s')
      | (Inr raw, s') \<Rightarrow> (StrOutputParser raw, s'))"
  by (simp add: chain_unfold summarize_stages_def prompt_lookup)

text \<open>
  Claim C2. For every string \<open>t\<close>, the prompt applied to a mapping that binds \<open>text\<close>
  to \<open>t\<close> is the fixed template with \<open>t\<close> in the place of the field; for \<open>hello\<close> it is
  the literal string of the specification.
\<close>

theorem prompt_substitutes_text:
  "prompt (m(''text'' \<mapsto> t)) =
     Inr (''Summarize the following text clearly and concisely:\<newline>\<newline>'' @ t) \<and>
   prompt [''text'' \<mapsto> ''hello''] =
     Inr ''Summarize the following text clearly and concisely:\<newline>\<newline>hello''"
  by (simp add: prompt_lookup)

text \<open>
  Claim C3. The Response Extractor returns the generated text of a response as a plain
  string, whatever the metadata; on a response whose text is \<open>A short summary.\<close> it
  returns exactly that string; on a response without the text field it fails with an
  extraction error.
\<close>

theorem StrOutputParser_returns_content:
  "StrOutputParser \<lparr>content = Some c, metadata = md\<rparr> = Inr c \<and>
   StrOutputParser \<lparr>content = Some ''A short summary.'', metadata = md\<rparr> =
     Inr ''A short summary.'' \<and>
   StrOutputParser \<lparr>content = None, metadata = md\<rparr> = Inl ExtractionError"
  by (simp add: StrOutputParser_def)

text \<open>
  Claim C4. A request whose JSON body has no key \<open>text\<close> (the body \<open>{}\<close>, or a body
  that is not an object) is answered with status 422 and a validation error, and the
  provider is not called: its state is the one before the request, for every provider.
\<close>

theorem missing_text_is_422:
  assumes "\<forall>members. request_body = JObj members \<longrightarrow> ''text'' \<notin> fst ` set members"
  shows "\<exists>m. summarize_endpoint llm request_body s =
           (\<lparr>status = 422, body = JObj [(''detail'', JStr (''ValidationError: '' @ m))]\<rparr>, s)"
proof -
  from validate_no_text [OF assms]
  obtain m where "validate request_body = Inl (ValidationError m)" ..
  then show ?thesis by (simp add: summarize_endpoint_def)
qed

theorem missing_text_is_422_witness:
  "summarize_endpoint (\<lambda>p (n::nat). (Inr \<lparr>content = Some ''x'', metadata = []\<rparr>, Suc n))
     (JObj []) 0 =
     (\<lparr>status = 422,
       body = JObj [(''detail'', JStr ''ValidationError: text: field required'')]\<rparr>, 0)"
  using missing_text_is_422 [of "JObj []"
      "\<lambda>p (n::nat). (Inr \<lparr>content = Some ''x'', metadata = []\<rparr>, Suc n)" 0]
  by (simp add: summarize_endpoint_def)

text \<open>
  Claim C5. When \<open>GROQ_API_KEY\<close> is not in the environment that line 16 reads, loading
  the module fails there with \<open>KeyError\<close>, whatever the module's name: the application
  is never built and no server listens, so the failure cannot wait for a first request.
\<close>

theorem missing_key_fails_at_load:
  "load_dotenv environ ''GROQ_API_KEY'' = None \<Longrightarrow>
   app_module load_dotenv environ name = Inl (KeyError ''GROQ_API_KEY'') \<and>
   listening (app_module load_dotenv environ name) = None"
  by (simp add: app_module_def listening_def)

theorem missing_key_fails_at_load_witness:
  "id Map.empty ''GROQ_API_KEY'' = (None :: string option) \<and>
   app_module id Map.empty ''__main__'' = Inl (KeyError ''GROQ_API_KEY'') \<and>
   listening (app_module id Map.empty ''__main__'') = None"
  using missing_key_fails_at_load [of id Map.empty "''__main__''"]
  by (simp add: listening_def)

text \<open>
  Claim C6. For every non-empty \<open>text\<close> and a functioning provider stub, the route
  answers with status 200 and a body whose \<open>output\<close> is a non-empty string. A stub
  functions when it answers the prompt with a response whose text is present and not
  empty; the \<open>output\<close> is that text.
\<close>

theorem nonempty_text_is_200:
  assumes "t \<noteq> []"
    and "llm (''Summarize the following text clearly and concisely:\<newline>\<newline>'' @ t) s =
           (Inr raw, s')"
    and "content raw = Some summary"
    and "summary \<noteq> []"
  shows "summarize_endpoint llm (JObj [(''text'', JStr t)]) s =
           (\<lparr>status = 200, body = JObj [(''output'', JStr summary)]\<rparr>, s') \<and>
         summary \<noteq> []"
  using assms
  by (simp add: summarize_endpoint_def chain_unfold prompt_lookup StrOutputParser_def)

theorem nonempty_text_is_200_witness:
  "''abc'' \<noteq> [] \<and> ''SUMMARY'' \<noteq> [] \<and>
   summarize_endpoint (\<lambda>p (n::nat). (Inr \<lparr>content = Some ''SUMMARY'', metadata = []\<rparr>, Suc n))
     (JObj [(''text'', JStr ''abc'')]) 0 =
     (\<lparr>status = 200, body = JObj [(''output'', JStr ''SUMMARY'')]\<rparr>, 1)"
  using nonempty_text_is_200 [of "''abc''"
      "\<lambda>p (n::nat). (Inr \<lparr>content = Some ''SUMMARY'', metadata = []\<rparr>, Suc n)" 0
      "\<lparr>content = Some ''SUMMARY'', metadata = []\<rparr>" 1 "''SUMMARY''"]
  by simp

text \<open>
  Claim C7. Against a provider stub that returns one constant answer, whatever the
  prompt and whatever its own state, two invocations with the same input, one after the
  other, give the same output: for the pipeline and for the route that serves it. The
  second invocation starts from the provider state the first one left.
\<close>

theorem same_input_same_output:
  assumes "\<forall>p u. fst (llm p u) = answer"
  shows "fst (chain llm request s) = fst (chain llm request (snd (chain llm request s))) \<and>
         fst (summarize_endpoint llm request_body s) =
           fst (summarize_endpoint llm request_body (snd (summarize_endpoint llm request_body s)))"
  by (simp only: endpoint_response chain_result assms)

theorem same_input_same_output_witness:
  "(\<forall>p u. fst ((\<lambda>p (n::nat). (Inr \<lparr>content = Some ''constant'', metadata = []\<rparr>, Suc n)) p u) =
      (Inr \<lparr>content = Some ''constant'', metadata = []\<rparr> :: error + response)) \<and>
   fst (summarize_endpoint
          (\<lambda>p (n::nat). (Inr \<lparr>content = Some ''constant'', metadata = []\<rparr>, Suc n))
          (JObj [(''text'', JStr ''abc'')]) 0) =
   fst (summarize_endpoint
          (\<lambda>p (n::nat). (Inr \<lparr>content = Some ''constant'', metadata = []\<rparr>, Suc n))
          (JObj [(''text'', JStr ''abc'')]) 1)"
proof -
  let ?llm = "\<lambda>(p::string) (n::nat).
    (Inr \<lparr>content = Some ''constant'', metadata = []\<rparr> :: error + response, Suc n)"
  let ?body = "JObj [(''text'', JStr ''abc'')]"
  have stub: "\<forall>p u. fst (?llm p u) = Inr \<lparr>content = Some ''constant'', metadata = []\<rparr>"
    by simp
  have after: "snd (summarize_endpoint ?llm ?body 0) = 1"
    by (simp add: summarize_endpoint_def chain_unfold prompt_lookup StrOutputParser_def)
  from same_input_same_output [OF stub, of "Map.empty" 0 ?body] after stub
  show ?thesis by simp
qed

text \<open>
  Claim C8, as amended. Run as the main program with \<open>GROQ_API_KEY\<close> in the
  environment, the module starts the listener on host \<open>localhost\<close> and port 8000, for
  every environment: the address is written in the last statement and nothing the
  module reads can change it.
\<close>

theorem listener_is_fixed:
  "load_dotenv environ ''GROQ_API_KEY'' = Some k \<Longrightarrow>
   listening (app_module load_dotenv environ ''__main__'') = Some (''localhost'', 8000)"
  by (simp add: app_module_def listening_def Let_def)

theorem listener_is_fixed_witness:
  "id [''GROQ_API_KEY'' \<mapsto> ''k''] ''GROQ_API_KEY'' = Some ''k'' \<and>
   listening (app_module id [''GROQ_API_KEY'' \<mapsto> ''k''] ''__main__'') =
     Some (''localhost'', 8000)"
  using listener_is_fixed [of id "[''GROQ_API_KEY'' \<mapsto> ''k'']" "''k''"] by simp

text \<open>
  Claim C8 as the specification states it, a configurable host and port, fails: an
  environment that asks for host \<open>0.0.0.0\<close> and port 9000 still gets the listener on
  \<open>localhost\<close>, port 8000.
\<close>

theorem listener_not_configurable:
  "listening (app_module id
      [''GROQ_API_KEY'' \<mapsto> ''k'', ''HOST'' \<mapsto> ''0.0.0.0'', ''PORT'' \<mapsto> ''9000''] ''__main__'') =
     Some (''localhost'', 8000) \<and>
   listening (app_module id
      [''GROQ_API_KEY'' \<mapsto> ''k'', ''HOST'' \<mapsto> ''0.0.0.0'', ''PORT'' \<mapsto> ''9000''] ''__main__'') \<noteq>
     Some (''0.0.0.0'', 9000)"
  by (simp add: app_module_def listening_def Let_def)

text \<open>
  Claim C9. An empty \<open>text\<close> is not refused: the body \<open>{"text": ""}\<close> passes validation,
  the prompt succeeds and is the fixed template with nothing in the place of the field,
  the pipeline hands that prompt to the provider, and the route does not answer 422.
\<close>

theorem empty_text_is_accepted:
  "validate (JObj [(''text'', JStr [])]) = Inr [''text'' \<mapsto> []] \<and>
   prompt [''text'' \<mapsto> []] =
     Inr ''Summarize the following text clearly and concisely:\<newline>\<newline>'' \<and>
   chain llm [''text'' \<mapsto> []] s =
     (case llm ''Summarize the following text clearly and concisely:\<newline>\<newline>'' s of
        (Inl e, s') \<Rightarrow> (Inl e, s')
      | (Inr raw, s') \<Rightarrow> (StrOutputParser raw, s')) \<and>
   status (fst (summarize_endpoint llm (JObj [(''text'', JStr [])]) s)) \<noteq> 422"
  by (simp add: summarize_endpoint_def chain_unfold prompt_lookup split: sum.splits prod.splits)

text \<open>
  Claim C10. The prompt depends on the value of \<open>text\<close> alone: two mappings that bind
  \<open>text\<close> to the same value give the same prompt, whatever other keys they hold.
\<close>

theorem prompt_depends_on_text_only:
  "m1 ''text'' = Some v \<Longrightarrow> m2 ''text'' = Some v \<Longrightarrow> prompt m1 = prompt m2"
  by (simp add: prompt_lookup)

theorem prompt_depends_on_text_only_witness:
  "[''text'' \<mapsto> ''abc''] ''text'' = Some ''abc'' \<and>
   [''text'' \<mapsto> ''abc'', ''lang'' \<mapsto> ''en''] ''text'' = Some ''abc'' \<and>
   prompt [''text'' \<mapsto> ''abc''] = prompt [''text'' \<mapsto> ''abc'', ''lang'' \<mapsto> ''en'']"
  using prompt_depends_on_text_only [of "[''text'' \<mapsto> ''abc'']" "''abc''"
      "[''text'' \<mapsto> ''abc'', ''lang'' \<mapsto> ''en'']"]
  by simp

end
